theory Spec2Isabelle
  imports Complex_Main
begin

section \<open>Python values\<close>

text \<open>
  The entities read dynamically typed data: the coordinator's device records, the keyword
  arguments of a service call, the payload of an MQTT message. A float is kept by its
  mathematical value, with the two infinities and NaN apart; comparison of Python numbers
  (int with float included) is exact on these values.
\<close>

datatype number = Real_num rat | Pos_inf | Neg_inf | Not_a_number

datatype pyval =
    PNone
  | PBool bool
  | PInt int
  | PFloat number
  | PStr string
  | PBytes "nat list"
  | PList "pyval list"
  | PDict "(string \<times> pyval) list"

text \<open>A dict is the list of its items in insertion order; a lookup takes the first entry
  of a key.\<close>

type_synonym 'a pydict = "(string \<times> 'a) list"

datatype error =
    ValueError string
  | TypeError
  | KeyError
  | AttributeError
  | PlugwiseException
  | HomeAssistantError

text \<open>
  A method either returns, leaving the state \<open>s\<close> (\<open>Inr s\<close>), or raises \<open>e\<close>, leaving the
  state as it was at the raise (\<open>Inl (e, s)\<close>).
\<close>

type_synonym 's outcome = "(error \<times> 's) + 's"

text \<open>Truth value testing, as \<open>if x:\<close> does it.\<close>

fun truthy :: "pyval \<Rightarrow> bool" where
  "truthy PNone = False"
| "truthy (PBool b) = b"
| "truthy (PInt i) = (i \<noteq> 0)"
| "truthy (PFloat x) = (x \<noteq> Real_num 0)"
| "truthy (PStr s) = (s \<noteq> [])"
| "truthy (PBytes bs) = (bs \<noteq> [])"
| "truthy (PList xs) = (xs \<noteq> [])"
| "truthy (PDict d) = (d \<noteq> [])"

text \<open>\<open>d.get(k)\<close>: the value, or None when the key is absent.\<close>

definition dict_get :: "pyval pydict \<Rightarrow> string \<Rightarrow> pyval" where
  "dict_get d k = (case map_of d k of None \<Rightarrow> PNone | Some v \<Rightarrow> v)"

text \<open>\<open>d[k]\<close>: the value, or KeyError when the key is absent.\<close>

definition dict_item :: "'a pydict \<Rightarrow> string \<Rightarrow> error + 'a" where
  "dict_item d k = (case map_of d k of None \<Rightarrow> Inl KeyError | Some v \<Rightarrow> Inr v)"

text \<open>\<open>d[k]\<close> with a key that is any value, on a dict whose keys are strings: a list or a
  dict is unhashable (TypeError), another value that is not a string is not a key.\<close>

fun dict_item_val :: "'a pydict \<Rightarrow> pyval \<Rightarrow> error + 'a" where
  "dict_item_val d (PStr k) = dict_item d k"
| "dict_item_val d (PList xs) = Inl TypeError"
| "dict_item_val d (PDict kvs) = Inl TypeError"
| "dict_item_val d v = Inl KeyError"

text \<open>\<open>x.get(k)\<close> on a value: only a dict has the method.\<close>

fun val_get :: "pyval \<Rightarrow> string \<Rightarrow> error + pyval" where
  "val_get (PDict d) k = Inr (dict_get d k)"
| "val_get v k = Inl AttributeError"

text \<open>\<open>list(x)\<close>: the keys of a dict, the items of a list, the characters of a string, the
  bytes of a bytes object; any other value is not iterable.\<close>

fun py_list :: "pyval \<Rightarrow> error + pyval list" where
  "py_list (PDict d) = Inr (map (\<lambda>kv. PStr (fst kv)) d)"
| "py_list (PList xs) = Inr xs"
| "py_list (PStr s) = Inr (map (\<lambda>c. PStr [c]) s)"
| "py_list (PBytes bs) = Inr (map (\<lambda>b. PInt (int b)) bs)"
| "py_list v = Inl TypeError"

text \<open>\<open>x in xs\<close> for a list \<open>xs\<close> of strings: only a string equals a string.\<close>

fun in_strs :: "pyval \<Rightarrow> string list \<Rightarrow> bool" where
  "in_strs (PStr s) xs = (s \<in> set xs)"
| "in_strs v xs = False"

subsection \<open>Numbers and their order\<close>

fun number_lt :: "number \<Rightarrow> number \<Rightarrow> bool" where
  "number_lt Not_a_number y = False"
| "number_lt x Not_a_number = False"
| "number_lt (Real_num a) (Real_num b) = (a < b)"
| "number_lt (Real_num a) Pos_inf = True"
| "number_lt (Real_num a) Neg_inf = False"
| "number_lt Pos_inf y = False"
| "number_lt Neg_inf Neg_inf = False"
| "number_lt Neg_inf y = True"

fun number_le :: "number \<Rightarrow> number \<Rightarrow> bool" where
  "number_le Not_a_number y = False"
| "number_le x Not_a_number = False"
| "number_le x y = (\<not> number_lt y x)"

text \<open>The number a value stands for in a comparison: bool is a subclass of int.\<close>

fun as_number :: "pyval \<Rightarrow> number option" where
  "as_number (PBool b) = Some (Real_num (if b then 1 else 0))"
| "as_number (PInt i) = Some (Real_num (of_int i))"
| "as_number (PFloat x) = Some x"
| "as_number v = None"

text \<open>
  The chained comparison \<open>lo < v < hi\<close> with numbers \<open>lo\<close> and \<open>hi\<close>: it is
  \<open>lo < v and v < hi\<close>, and comparing a number with a value that is not one raises
  TypeError.
\<close>

definition chained_lt :: "number \<Rightarrow> pyval \<Rightarrow> number \<Rightarrow> error + bool" where
  "chained_lt lo v hi =
     (case as_number v of
        None \<Rightarrow> Inl TypeError
      | Some x \<Rightarrow> Inr (number_lt lo x \<and> number_lt x hi))"

section \<open>The Plugwise entities\<close>

subsection \<open>Constants of the platform\<close>

text \<open>
  Modelled from the spec: the constants of \<open>homeassistant.components.climate.const\<close> and
  \<open>homeassistant.const\<close> that climate.py imports are not among the sources; their values
  are the platform's, the words by which the actions (heating, cooling, idle), the modes
  (heat, cool, auto, off) and the service attribute (temperature) are known.
\<close>

definition CURRENT_HVAC_COOL :: string where "CURRENT_HVAC_COOL = ''cooling''"
definition CURRENT_HVAC_HEAT :: string where "CURRENT_HVAC_HEAT = ''heating''"
definition CURRENT_HVAC_IDLE :: string where "CURRENT_HVAC_IDLE = ''idle''"
definition HVAC_MODE_AUTO :: string where "HVAC_MODE_AUTO = ''auto''"
definition HVAC_MODE_COOL :: string where "HVAC_MODE_COOL = ''cool''"
definition HVAC_MODE_HEAT :: string where "HVAC_MODE_HEAT = ''heat''"
definition HVAC_MODE_OFF :: string where "HVAC_MODE_OFF = ''off''"
definition ATTR_TEMPERATURE :: string where "ATTR_TEMPERATURE = ''temperature''"

definition HVAC_MODES_HEAT_ONLY :: "string list" where
  "HVAC_MODES_HEAT_ONLY = [HVAC_MODE_HEAT, HVAC_MODE_AUTO, HVAC_MODE_OFF]"

definition HVAC_MODES_HEAT_COOL :: "string list" where
  "HVAC_MODES_HEAT_COOL = [HVAC_MODE_HEAT, HVAC_MODE_COOL, HVAC_MODE_AUTO, HVAC_MODE_OFF]"

subsection \<open>The coordinator and the vendor API\<close>

text \<open>
  The calls an entity makes on \<open>coordinator.api\<close>, with their arguments. The coordinator
  holds the polled data (\<open>coordinator.data.devices\<close>, \<open>coordinator.data.gateway\<close>) and the
  API client; of the client the model keeps the calls made on it, oldest first.
\<close>

datatype api_call =
    Set_temperature pyval pyval
  | Set_preset pyval string
  | Set_switch_state string pyval string string

record coordinator =
  devices :: "pyval pydict pydict"
  gateway :: "pyval pydict"
  api_calls :: "api_call list"

text \<open>\<open>PlugwiseEntity\<close>, the base of both entities: the coordinator and the device id.\<close>

record plugwise_entity =
  coordinator :: coordinator
  dev_id :: string

text \<open>
  \<open>PlugwiseClimateEntity\<close>. \<open>attr_max_temp\<close> and \<open>attr_min_temp\<close> are the class
  attributes set from \<open>DEFAULT_MAX_TEMP\<close> and \<open>DEFAULT_MIN_TEMP\<close> of const.py, which is not
  among the sources: they are fields here, so every theorem holds for any two numbers.
\<close>

record climate_entity = plugwise_entity +
  loc_id :: pyval
  attr_max_temp :: number
  attr_min_temp :: number
  attr_target_temperature :: pyval
  attr_current_temperature :: pyval
  attr_preset_mode :: pyval
  attr_preset_modes :: "pyval list option"
  attr_hvac_action :: "string option"
  attr_hvac_modes :: "string list"
  attr_hvac_mode :: pyval
  attr_extra_state_attributes :: "pyval pydict"

subsection \<open>climate.py: \<open>_handle_coordinator_update\<close>\<close>

text \<open>The three lookups that open the method and the two reads of \<open>data["sensors"]\<close>; none
  of them changes the entity.\<close>

definition device_data :: "'a plugwise_entity_scheme \<Rightarrow> error + pyval pydict" where
  "device_data self = dict_item (devices (coordinator self)) (dev_id self)"

definition heater_central_data :: "'a plugwise_entity_scheme \<Rightarrow> error + pyval pydict" where
  "heater_central_data self =
     (case dict_item (gateway (coordinator self)) ''heater_id'' of
        Inl e \<Rightarrow> Inl e
      | Inr heater_id \<Rightarrow> dict_item_val (devices (coordinator self)) heater_id)"

definition sensors_get :: "pyval pydict \<Rightarrow> string \<Rightarrow> error + pyval" where
  "sensors_get data k =
     (case dict_item data ''sensors'' of
        Inl e \<Rightarrow> Inl e
      | Inr sensors \<Rightarrow> val_get sensors k)"

text \<open>Current and set temperatures.\<close>

definition update_temperatures ::
  "pyval pydict \<Rightarrow> climate_entity \<Rightarrow> climate_entity outcome" where
  "update_temperatures data self =
     (case sensors_get data ''setpoint'' of
        Inl e \<Rightarrow> Inl (e, self)
      | Inr setpoint \<Rightarrow>
          let self1 = (if truthy setpoint
                       then self\<lparr>attr_target_temperature := setpoint\<rparr> else self)
          in (case sensors_get data ''temperature'' of
                Inl e \<Rightarrow> Inl (e, self1)
              | Inr temperature \<Rightarrow>
                  Inr (if truthy temperature
                       then self1\<lparr>attr_current_temperature := temperature\<rparr> else self1)))"

text \<open>Presets handling.\<close>

definition update_presets ::
  "pyval pydict \<Rightarrow> climate_entity \<Rightarrow> climate_entity outcome" where
  "update_presets data self =
     (let self1 = self\<lparr>attr_preset_mode := dict_get data ''active_preset''\<rparr>;
          presets = dict_get data ''presets''
      in if truthy presets
         then (case py_list presets of
                 Inl e \<Rightarrow> Inl (e, self1)
               | Inr modes \<Rightarrow> Inr (self1\<lparr>attr_preset_modes := Some modes\<rparr>))
         else Inr (self1\<lparr>attr_preset_mode := PNone\<rparr>))"

text \<open>Determine current hvac action.\<close>

definition update_hvac_action :: "pyval pydict \<Rightarrow> climate_entity \<Rightarrow> climate_entity" where
  "update_hvac_action heater self =
     (let self1 = self\<lparr>attr_hvac_action := Some CURRENT_HVAC_IDLE\<rparr>
      in if truthy (dict_get heater ''heating_state'')
         then self1\<lparr>attr_hvac_action := Some CURRENT_HVAC_HEAT\<rparr>
         else if truthy (dict_get heater ''cooling_state'')
         then self1\<lparr>attr_hvac_action := Some CURRENT_HVAC_COOL\<rparr>
         else self1)"

text \<open>Determine hvac modes and current hvac mode.\<close>

definition update_hvac_modes :: "pyval pydict \<Rightarrow> climate_entity \<Rightarrow> climate_entity" where
  "update_hvac_modes data self =
     (let self1 = self\<lparr>attr_hvac_modes := HVAC_MODES_HEAT_ONLY\<rparr>;
          self2 = (if truthy (dict_get (gateway (coordinator self)) ''cooling_present'')
                   then self1\<lparr>attr_hvac_modes := HVAC_MODES_HEAT_COOL\<rparr> else self1)
      in if in_strs (dict_get data ''mode'') (attr_hvac_modes self2)
         then self2\<lparr>attr_hvac_mode := dict_get data ''mode''\<rparr>
         else self2)"

text \<open>Extra attributes.\<close>

definition update_extra_attributes ::
  "pyval pydict \<Rightarrow> climate_entity \<Rightarrow> climate_entity" where
  "update_extra_attributes data self =
     self\<lparr>attr_extra_state_attributes :=
            [(''available_schemas'', dict_get data ''available_schedules''),
             (''selected_schema'', dict_get data ''selected_schedule'')]\<rparr>"

text \<open>
  The method. Its last statement hands the entity to the base class, which is not among
  the sources; the model returns the entity as it stands at that call.
\<close>

definition handle_coordinator_update :: "climate_entity \<Rightarrow> climate_entity outcome" where
  "handle_coordinator_update self =
     (case device_data self of
        Inl e \<Rightarrow> Inl (e, self)
      | Inr data \<Rightarrow>
     (case heater_central_data self of
        Inl e \<Rightarrow> Inl (e, self)
      | Inr heater \<Rightarrow>
     (case update_temperatures data self of
        Inl r \<Rightarrow> Inl r
      | Inr self1 \<Rightarrow>
     (case update_presets data self1 of
        Inl r \<Rightarrow> Inl r
      | Inr self2 \<Rightarrow>
          Inr (update_extra_attributes data
                 (update_hvac_modes data (update_hvac_action heater self2)))))))"

subsection \<open>The vendor API and the command decorator\<close>

text \<open>
  The vendor client is outside the sources. A call on it is recorded in \<open>api_calls\<close> and
  then either returns or raises the vendor library's exception; which of the two is the
  parameter \<open>api\<close> (True: the call returns), so that a theorem holds for every behaviour of
  the client.
\<close>

type_synonym smile = "api_call \<Rightarrow> bool"

definition record_call ::
  "api_call \<Rightarrow> 'a plugwise_entity_scheme \<Rightarrow> 'a plugwise_entity_scheme" where
  "record_call call self =
     self\<lparr>coordinator :=
            (coordinator self)\<lparr>api_calls := api_calls (coordinator self) @ [call]\<rparr>\<rparr>"

definition api_invoke ::
  "smile \<Rightarrow> api_call \<Rightarrow> 'a plugwise_entity_scheme \<Rightarrow> 'a plugwise_entity_scheme outcome" where
  "api_invoke api call self =
     (if api call then Inr (record_call call self)
      else Inl (PlugwiseException, record_call call self))"

text \<open>
  Modelled from the spec: the decorator \<open>plugwise_command\<close> of util.py is not among the
  sources. What it does to the outcome of the decorated coroutine is taken from
  tests/components/plugwise/test_switch.py (\<open>test_adam_climate_switch_negative_testing\<close>):
  a PlugwiseException raised by the client reaches the caller as HomeAssistantError, after
  the call was made and counted; any other outcome is the coroutine's own.
\<close>

definition plugwise_command :: "'s outcome \<Rightarrow> 's outcome" where
  "plugwise_command r =
     (case r of
        Inl (e, s) \<Rightarrow> Inl (if e = PlugwiseException then HomeAssistantError else e, s)
      | Inr s \<Rightarrow> Inr s)"

subsection \<open>climate.py: the commands\<close>

definition async_set_temperature ::
  "smile \<Rightarrow> pyval pydict \<Rightarrow> climate_entity \<Rightarrow> climate_entity outcome" where
  "async_set_temperature api kwargs self = plugwise_command
     (let temperature = dict_get kwargs ATTR_TEMPERATURE
      in if temperature = PNone
         then Inl (ValueError ''Invalid temperature requested'', self)
         else (case chained_lt (attr_max_temp self) temperature (attr_min_temp self) of
                 Inl e \<Rightarrow> Inl (e, self)
               | Inr between \<Rightarrow>
                   if between
                   then Inl (ValueError ''Invalid temperature requested'', self)
                   else api_invoke api (Set_temperature (loc_id self) temperature) self))"

definition async_set_preset_mode ::
  "smile \<Rightarrow> string \<Rightarrow> climate_entity \<Rightarrow> climate_entity outcome" where
  "async_set_preset_mode api preset_mode self = plugwise_command
     (case device_data self of
        Inl e \<Rightarrow> Inl (e, self)
      | Inr data \<Rightarrow>
          if \<not> truthy (dict_get data ''presets'')
          then Inl (ValueError ''No presets available'', self)
          else api_invoke api (Set_preset (loc_id self) preset_mode) self)"

subsection \<open>switch.py\<close>

record switch_entity = plugwise_entity +
  entity_description_key :: string

text \<open>
  Modelled from the spec: the property \<open>device\<close> of PlugwiseEntity is defined in entity.py,
  which is not among the sources. It is the record of the entity's device in the
  coordinator data, the one climate.py reads as
  \<open>self.coordinator.data.devices[self._dev_id]\<close>.
\<close>

definition device :: "'a plugwise_entity_scheme \<Rightarrow> error + pyval pydict" where
  "device self = dict_item (devices (coordinator self)) (dev_id self)"

definition set_switch ::
  "smile \<Rightarrow> string \<Rightarrow> switch_entity \<Rightarrow> switch_entity outcome" where
  "set_switch api st self =
     (case device self of
        Inl e \<Rightarrow> Inl (e, self)
      | Inr dev \<Rightarrow>
          api_invoke api
            (Set_switch_state (dev_id self) (dict_get dev ''members'')
               (entity_description_key self) st) self)"

definition async_turn_on :: "smile \<Rightarrow> switch_entity \<Rightarrow> switch_entity outcome" where
  "async_turn_on api self = plugwise_command (set_switch api ''on'' self)"

definition async_turn_off :: "smile \<Rightarrow> switch_entity \<Rightarrow> switch_entity outcome" where
  "async_turn_off api self = plugwise_command (set_switch api ''off'' self)"

section \<open>The MQTT lock\<close>

text \<open>
  The validated configuration of a lock. The keys with a default or required by the schema
  are always there; \<open>state_topic\<close> and \<open>payload_open\<close> are optional and have no default.
  \<open>conf_value_template\<close> is the rendering function that \<open>MqttValueTemplate\<close> (not among
  the sources) builds from the configured template: it is a parameter.
\<close>

record lock_config =
  command_topic :: string
  state_topic :: "string option"
  conf_optimistic :: bool
  payload_lock :: string
  payload_unlock :: string
  payload_open :: "string option"
  state_locked :: string
  state_unlocked :: string
  qos :: int
  retain :: bool
  encoding :: string
  conf_value_template :: "pyval \<Rightarrow> pyval"

datatype publish = Publish string string int bool string

record subscription =
  sub_topic :: string
  sub_qos :: int
  sub_encoding :: "string option"

text \<open>
  \<open>MqttLock\<close>: its attributes, the messages it has published (topic, payload, QoS, retain
  flag, encoding) and the values of \<open>is_locked\<close> it has written to the platform, oldest
  first.
\<close>

record mqtt_lock =
  config :: lock_config
  state :: bool
  optimistic :: bool
  value_template :: "pyval \<Rightarrow> pyval"
  sub_state :: "subscription option"
  published :: "publish list"
  ha_states :: "bool list"

definition is_locked :: "mqtt_lock \<Rightarrow> bool" where
  "is_locked self = state self"

definition assumed_state :: "mqtt_lock \<Rightarrow> bool" where
  "assumed_state self = optimistic self"

text \<open>\<open>SUPPORT_OPEN\<close> is a constant of the lock platform, not among the sources: a
  parameter.\<close>

definition supported_features :: "nat \<Rightarrow> mqtt_lock \<Rightarrow> nat" where
  "supported_features SUPPORT_OPEN self =
     (if payload_open (config self) \<noteq> None then SUPPORT_OPEN else 0)"

text \<open>
  Modelled from the spec: \<open>async_write_ha_state\<close> (the platform's Entity) and
  \<open>async_publish\<close> (MqttEntity, mixins.py) are not among the sources. The first writes the
  entity's state, here the value of \<open>is_locked\<close>, to the platform; the second publishes one
  message with the given topic, payload, QoS, retain flag and encoding.
\<close>

definition async_write_ha_state :: "mqtt_lock \<Rightarrow> mqtt_lock" where
  "async_write_ha_state self = self\<lparr>ha_states := ha_states self @ [is_locked self]\<rparr>"

definition async_publish ::
  "string \<Rightarrow> string \<Rightarrow> int \<Rightarrow> bool \<Rightarrow> string \<Rightarrow> mqtt_lock \<Rightarrow> mqtt_lock" where
  "async_publish t p q r enc self = self\<lparr>published := published self @ [Publish t p q r enc]\<rparr>"

definition setup_from_config :: "lock_config \<Rightarrow> mqtt_lock \<Rightarrow> mqtt_lock" where
  "setup_from_config cfg self =
     self\<lparr>optimistic := conf_optimistic cfg,
          value_template := conf_value_template (config self)\<rparr>"

text \<open>The callback of the state topic, applied to the payload of the message.\<close>

definition message_received :: "pyval \<Rightarrow> mqtt_lock \<Rightarrow> mqtt_lock" where
  "message_received msg_payload self =
     (let payload = value_template self msg_payload
      in async_write_ha_state
           (if payload = PStr (state_locked (config self)) then self\<lparr>state := True\<rparr>
            else if payload = PStr (state_unlocked (config self)) then self\<lparr>state := False\<rparr>
            else self))"

definition prepare_subscribe_topics :: "mqtt_lock \<Rightarrow> mqtt_lock" where
  "prepare_subscribe_topics self =
     (case state_topic (config self) of
        None \<Rightarrow> self\<lparr>optimistic := True\<rparr>
      | Some t \<Rightarrow>
          self\<lparr>sub_state :=
                 Some \<lparr>sub_topic = t, sub_qos = qos (config self),
                       sub_encoding = (if encoding (config self) \<noteq> []
                                       then Some (encoding (config self)) else None)\<rparr>\<rparr>)"

definition async_lock :: "mqtt_lock \<Rightarrow> mqtt_lock" where
  "async_lock self =
     (let self1 = async_publish (command_topic (config self)) (payload_lock (config self))
                    (qos (config self)) (retain (config self)) (encoding (config self)) self
      in if optimistic self1 then async_write_ha_state (self1\<lparr>state := True\<rparr>) else self1)"

definition async_unlock :: "mqtt_lock \<Rightarrow> mqtt_lock" where
  "async_unlock self =
     (let self1 = async_publish (command_topic (config self)) (payload_unlock (config self))
                    (qos (config self)) (retain (config self)) (encoding (config self)) self
      in if optimistic self1 then async_write_ha_state (self1\<lparr>state := False\<rparr>) else self1)"

text \<open>\<open>self._config[CONF_PAYLOAD_OPEN]\<close> raises KeyError when no open payload is configured,
  before anything is published.\<close>

definition async_open :: "mqtt_lock \<Rightarrow> mqtt_lock outcome" where
  "async_open self =
     (case payload_open (config self) of
        None \<Rightarrow> Inl (KeyError, self)
      | Some p \<Rightarrow>
          let self1 = async_publish (command_topic (config self)) p
                        (qos (config self)) (retain (config self)) (encoding (config self)) self
          in Inr (if optimistic self1
                  then async_write_ha_state (self1\<lparr>state := False\<rparr>) else self1))"

section \<open>Sample data\<close>

text \<open>
  A small installation on which the theorems below are instantiated: a zone thermostat
  with a setpoint, presets and a schedule, a thermostat whose record has no readings, the
  heater with both state flags set, and a plug with a relay.
\<close>

definition adam_devices :: "pyval pydict pydict" where
  "adam_devices =
     [(''zone'',
         [(''class'', PStr ''zone_thermostat''),
          (''location'', PStr ''living''),
          (''sensors'', PDict [(''setpoint'', PFloat (Real_num 21)),
                                (''temperature'', PFloat (Real_num (41 / 2)))]),
          (''active_preset'', PStr ''home''),
          (''presets'', PDict [(''home'', PList [PInt 20]), (''away'', PList [PInt 15])]),
          (''mode'', PStr ''auto''),
          (''available_schedules'', PList [PStr ''week'']),
          (''selected_schedule'', PStr ''week'')]),
      (''bare'',
         [(''class'', PStr ''thermostat''),
          (''location'', PStr ''hall''),
          (''sensors'', PDict [])]),
      (''heater'',
         [(''class'', PStr ''heater_central''),
          (''heating_state'', PBool True),
          (''cooling_state'', PBool True)]),
      (''cv_pomp'',
         [(''class'', PStr ''plug''),
          (''switches'', PDict [(''relay'', PBool True)])])]"

definition adam_coordinator :: coordinator where
  "adam_coordinator =
     \<lparr>devices = adam_devices,
      gateway = [(''heater_id'', PStr ''heater''), (''cooling_present'', PBool False)],
      api_calls = []\<rparr>"

text \<open>A climate entity of that installation as it is before the first update, with a
  given target temperature.\<close>

definition adam_climate :: "string \<Rightarrow> pyval \<Rightarrow> pyval \<Rightarrow> climate_entity" where
  "adam_climate dev loc target =
     \<lparr>coordinator = adam_coordinator, dev_id = dev, loc_id = loc,
      attr_max_temp = Real_num 30, attr_min_temp = Real_num 4,
      attr_target_temperature = target, attr_current_temperature = PNone,
      attr_preset_mode = PNone, attr_preset_modes = None,
      attr_hvac_action = None, attr_hvac_modes = HVAC_MODES_HEAT_ONLY,
      attr_hvac_mode = PStr HVAC_MODE_HEAT, attr_extra_state_attributes = []\<rparr>"

definition adam_switch :: switch_entity where
  "adam_switch =
     \<lparr>coordinator = adam_coordinator, dev_id = ''cv_pomp'',
      entity_description_key = ''relay''\<rparr>"

text \<open>A lock with the default payloads and states, with or without a state topic and an
  open payload, and one whose two state strings are the same.\<close>

definition front_door_config :: "string option \<Rightarrow> string option \<Rightarrow> string \<Rightarrow> lock_config" where
  "front_door_config st_topic open_payload unlocked =
     \<lparr>command_topic = ''door/set'', state_topic = st_topic, conf_optimistic = False,
      payload_lock = ''LOCK'', payload_unlock = ''UNLOCK'', payload_open = open_payload,
      state_locked = ''LOCKED'', state_unlocked = unlocked,
      qos = 0, retain = False, encoding = ''utf-8'', conf_value_template = id\<rparr>"

definition front_door :: "lock_config \<Rightarrow> bool \<Rightarrow> bool \<Rightarrow> mqtt_lock" where
  "front_door cfg locked opt =
     \<lparr>config = cfg, state = locked, optimistic = opt, value_template = id,
      sub_state = None, published = [], ha_states = []\<rparr>"

text \<open>The state a method leaves behind, whether it returned or raised.\<close>

definition state_after :: "'s outcome \<Rightarrow> 's" where
  "state_after r = (case r of Inl (e, s) \<Rightarrow> s | Inr s \<Rightarrow> s)"

section \<open>The climate entity: derived state\<close>

lemma update_temperatures_frame:
  assumes "update_temperatures data self = Inr self'"
  shows "coordinator self' = coordinator self" and "dev_id self' = dev_id self"
    and "attr_hvac_action self' = attr_hvac_action self"
    and "attr_hvac_modes self' = attr_hvac_modes self"
    and "attr_hvac_mode self' = attr_hvac_mode self"
    and "attr_preset_mode self' = attr_preset_mode self"
    and "attr_preset_modes self' = attr_preset_modes self"
  using assms
  by (auto simp: update_temperatures_def Let_def split: sum.splits if_splits)

lemma update_presets_frame:
  assumes "update_presets data self = Inr self'"
  shows "coordinator self' = coordinator self" and "dev_id self' = dev_id self"
    and "attr_hvac_action self' = attr_hvac_action self"
    and "attr_hvac_modes self' = attr_hvac_modes self"
    and "attr_hvac_mode self' = attr_hvac_mode self"
    and "attr_target_temperature self' = attr_target_temperature self"
    and "attr_current_temperature self' = attr_current_temperature self"
  using assms
  by (auto simp: update_presets_def Let_def split: sum.splits if_splits)

lemma update_hvac_action_value:
  "attr_hvac_action (update_hvac_action heater self) =
     Some (if truthy (dict_get heater ''heating_state'') then CURRENT_HVAC_HEAT
           else if truthy (dict_get heater ''cooling_state'') then CURRENT_HVAC_COOL
           else CURRENT_HVAC_IDLE)"
  by (simp add: update_hvac_action_def Let_def)

lemma update_hvac_modes_action:
  "attr_hvac_action (update_hvac_modes data self) = attr_hvac_action self"
  by (simp add: update_hvac_modes_def Let_def)

text \<open>
  C1. Whenever \<open>_handle_coordinator_update\<close> returns, the HVAC action of the entity is
  heating if the heater-central device's \<open>heating_state\<close> is truthy, otherwise cooling if
  its \<open>cooling_state\<close> is truthy, otherwise idle; heating wins when both flags are set.
\<close>

theorem hvac_action_derived:
  assumes "handle_coordinator_update self = Inr self'"
  shows "\<exists>heater. heater_central_data self = Inr heater \<and>
           attr_hvac_action self' =
             Some (if truthy (dict_get heater ''heating_state'') then ''heating''
                   else if truthy (dict_get heater ''cooling_state'') then ''cooling''
                   else ''idle'')"
  using assms
  by (auto simp: handle_coordinator_update_def update_extra_attributes_def
        update_hvac_modes_action update_hvac_action_value
        CURRENT_HVAC_HEAT_def CURRENT_HVAC_COOL_def CURRENT_HVAC_IDLE_def
      split: sum.splits)

lemmas sample_defs =
  adam_devices_def adam_coordinator_def adam_climate_def adam_switch_def
  front_door_config_def front_door_def

lemmas lookup_defs =
  dict_get_def dict_item_def device_data_def heater_central_data_def sensors_get_def

lemmas update_defs =
  handle_coordinator_update_def update_temperatures_def update_presets_def
  update_hvac_action_def update_hvac_modes_def update_extra_attributes_def
  HVAC_MODES_HEAT_ONLY_def HVAC_MODES_HEAT_COOL_def
  HVAC_MODE_HEAT_def HVAC_MODE_COOL_def HVAC_MODE_AUTO_def HVAC_MODE_OFF_def
  CURRENT_HVAC_HEAT_def CURRENT_HVAC_COOL_def CURRENT_HVAC_IDLE_def

lemma zone_update_returns:
  "\<exists>self'. handle_coordinator_update (adam_climate ''zone'' (PStr ''living'') PNone) = Inr self'"
  by (simp add: sample_defs lookup_defs update_defs)

theorem hvac_action_derived_witness:
  "\<exists>self'. handle_coordinator_update (adam_climate ''zone'' (PStr ''living'') PNone) = Inr self'
      \<and> attr_hvac_action self' = Some ''heating''"
proof -
  obtain self' where
    r: "handle_coordinator_update (adam_climate ''zone'' (PStr ''living'') PNone) = Inr self'"
    using zone_update_returns by blast
  have h: "heater_central_data (adam_climate ''zone'' (PStr ''living'') PNone) =
             Inr [(''class'', PStr ''heater_central''),
                  (''heating_state'', PBool True), (''cooling_state'', PBool True)]"
    by (simp add: sample_defs lookup_defs)
  from hvac_action_derived [OF r] h have "attr_hvac_action self' = Some ''heating''"
    by (simp add: dict_get_def)
  with r show ?thesis by blast
qed

lemma update_hvac_action_frame:
  "coordinator (update_hvac_action heater self) = coordinator self"
  "attr_hvac_mode (update_hvac_action heater self) = attr_hvac_mode self"
  "attr_target_temperature (update_hvac_action heater self) = attr_target_temperature self"
  "attr_current_temperature (update_hvac_action heater self) = attr_current_temperature self"
  "attr_preset_mode (update_hvac_action heater self) = attr_preset_mode self"
  "attr_preset_modes (update_hvac_action heater self) = attr_preset_modes self"
  by (simp_all add: update_hvac_action_def Let_def)

lemma update_hvac_modes_value:
  "attr_hvac_modes (update_hvac_modes data self) =
     (if truthy (dict_get (gateway (coordinator self)) ''cooling_present'')
      then HVAC_MODES_HEAT_COOL else HVAC_MODES_HEAT_ONLY)"
  "attr_hvac_mode (update_hvac_modes data self) =
     (if in_strs (dict_get data ''mode'') (attr_hvac_modes (update_hvac_modes data self))
      then dict_get data ''mode'' else attr_hvac_mode self)"
  by (simp_all add: update_hvac_modes_def Let_def)

lemma update_hvac_modes_frame:
  "attr_target_temperature (update_hvac_modes data self) = attr_target_temperature self"
  "attr_current_temperature (update_hvac_modes data self) = attr_current_temperature self"
  "attr_preset_mode (update_hvac_modes data self) = attr_preset_mode self"
  "attr_preset_modes (update_hvac_modes data self) = attr_preset_modes self"
  by (simp_all add: update_hvac_modes_def Let_def)

text \<open>
  C5. Whenever \<open>_handle_coordinator_update\<close> returns, the available HVAC modes are
  heat, auto, off, unless the gateway's \<open>cooling_present\<close> is truthy, and then they are
  heat, cool, auto, off; the HVAC mode is the device's reported mode when that mode is in
  the list just computed, and the previous HVAC mode otherwise.
\<close>

theorem hvac_modes_derived:
  assumes "handle_coordinator_update self = Inr self'"
  shows "\<exists>data. device_data self = Inr data \<and>
           attr_hvac_modes self' =
             (if truthy (dict_get (gateway (coordinator self)) ''cooling_present'')
              then [''heat'', ''cool'', ''auto'', ''off''] else [''heat'', ''auto'', ''off'']) \<and>
           attr_hvac_mode self' =
             (if in_strs (dict_get data ''mode'') (attr_hvac_modes self')
              then dict_get data ''mode'' else attr_hvac_mode self)"
proof -
  from assms obtain data heater self1 self2 where
    d: "device_data self = Inr data" and
    t: "update_temperatures data self = Inr self1" and
    p: "update_presets data self1 = Inr self2" and
    r: "self' = update_extra_attributes data
                  (update_hvac_modes data (update_hvac_action heater self2))"
    by (auto simp: handle_coordinator_update_def split: sum.splits)
  have c: "coordinator self2 = coordinator self"
    using update_temperatures_frame(1) [OF t] update_presets_frame(1) [OF p] by simp
  have m: "attr_hvac_mode self2 = attr_hvac_mode self"
    using update_temperatures_frame(5) [OF t] update_presets_frame(5) [OF p] by simp
  show ?thesis
    using d
    by (simp add: r update_extra_attributes_def update_hvac_modes_value
          update_hvac_action_frame c m HVAC_MODES_HEAT_COOL_def HVAC_MODES_HEAT_ONLY_def
          HVAC_MODE_HEAT_def HVAC_MODE_COOL_def HVAC_MODE_AUTO_def HVAC_MODE_OFF_def)
qed

theorem hvac_modes_derived_witness:
  "\<exists>self'. handle_coordinator_update (adam_climate ''zone'' (PStr ''living'') PNone) = Inr self'
      \<and> attr_hvac_modes self' = [''heat'', ''auto'', ''off'']
      \<and> attr_hvac_mode self' = PStr ''auto''"
proof -
  obtain self' where
    r: "handle_coordinator_update (adam_climate ''zone'' (PStr ''living'') PNone) = Inr self'"
    using zone_update_returns by blast
  from hvac_modes_derived [OF r]
  have "attr_hvac_modes self' = [''heat'', ''auto'', ''off''] \<and> attr_hvac_mode self' = PStr ''auto''"
    by (simp add: sample_defs lookup_defs)
  with r show ?thesis by blast
qed

section \<open>The climate entity: what the derived state depends on\<close>

text \<open>The entity that an update returns, attribute by attribute.\<close>

lemma handle_coordinator_update_result:
  assumes "handle_coordinator_update self = Inr self'"
  shows "\<exists>data heater setpoint temperature.
           device_data self = Inr data \<and> heater_central_data self = Inr heater \<and>
           sensors_get data ''setpoint'' = Inr setpoint \<and>
           sensors_get data ''temperature'' = Inr temperature \<and>
           attr_target_temperature self' =
             (if truthy setpoint then setpoint else attr_target_temperature self) \<and>
           attr_current_temperature self' =
             (if truthy temperature then temperature else attr_current_temperature self) \<and>
           attr_preset_mode self' =
             (if truthy (dict_get data ''presets'') then dict_get data ''active_preset''
              else PNone) \<and>
           attr_preset_modes self' =
             (if truthy (dict_get data ''presets'')
              then (case py_list (dict_get data ''presets'') of
                      Inr modes \<Rightarrow> Some modes | Inl e \<Rightarrow> attr_preset_modes self)
              else attr_preset_modes self) \<and>
           attr_hvac_action self' =
             Some (if truthy (dict_get heater ''heating_state'') then CURRENT_HVAC_HEAT
                   else if truthy (dict_get heater ''cooling_state'') then CURRENT_HVAC_COOL
                   else CURRENT_HVAC_IDLE) \<and>
           attr_hvac_modes self' =
             (if truthy (dict_get (gateway (coordinator self)) ''cooling_present'')
              then HVAC_MODES_HEAT_COOL else HVAC_MODES_HEAT_ONLY) \<and>
           attr_hvac_mode self' =
             (if in_strs (dict_get data ''mode'') (attr_hvac_modes self')
              then dict_get data ''mode'' else attr_hvac_mode self) \<and>
           attr_extra_state_attributes self' =
             [(''available_schemas'', dict_get data ''available_schedules''),
              (''selected_schema'', dict_get data ''selected_schedule'')]"
proof -
  from assms obtain data heater self1 self2 where
    d: "device_data self = Inr data" and
    h: "heater_central_data self = Inr heater" and
    t: "update_temperatures data self = Inr self1" and
    p: "update_presets data self1 = Inr self2" and
    r: "self' = update_extra_attributes data
                  (update_hvac_modes data (update_hvac_action heater self2))"
    by (auto simp: handle_coordinator_update_def split: sum.splits)
  from t obtain setpoint temperature where
    s: "sensors_get data ''setpoint'' = Inr setpoint" and
    c: "sensors_get data ''temperature'' = Inr temperature" and
    s1: "self1 = (let a = (if truthy setpoint
                           then self\<lparr>attr_target_temperature := setpoint\<rparr> else self)
                  in if truthy temperature
                     then a\<lparr>attr_current_temperature := temperature\<rparr> else a)"
    by (auto simp: update_temperatures_def Let_def split: sum.splits)
  have tt: "attr_target_temperature self1 =
              (if truthy setpoint then setpoint else attr_target_temperature self)"
    and ct: "attr_current_temperature self1 =
              (if truthy temperature then temperature else attr_current_temperature self)"
    by (simp_all add: s1 Let_def)
  have pm: "attr_preset_mode self2 =
              (if truthy (dict_get data ''presets'') then dict_get data ''active_preset''
               else PNone)"
    and pms: "attr_preset_modes self2 =
              (if truthy (dict_get data ''presets'')
               then (case py_list (dict_get data ''presets'') of
                       Inr modes \<Rightarrow> Some modes | Inl e \<Rightarrow> attr_preset_modes self1)
               else attr_preset_modes self1)"
    using p by (auto simp: update_presets_def Let_def split: sum.splits if_splits)
  have "attr_target_temperature self' = attr_target_temperature self1"
    and "attr_current_temperature self' = attr_current_temperature self1"
    and "attr_preset_mode self' = attr_preset_mode self2"
    and "attr_preset_modes self' = attr_preset_modes self2"
    and "attr_preset_modes self1 = attr_preset_modes self"
    and "attr_hvac_action self' =
             Some (if truthy (dict_get heater ''heating_state'') then CURRENT_HVAC_HEAT
                   else if truthy (dict_get heater ''cooling_state'') then CURRENT_HVAC_COOL
                   else CURRENT_HVAC_IDLE)"
    and "attr_hvac_modes self' =
             (if truthy (dict_get (gateway (coordinator self)) ''cooling_present'')
              then HVAC_MODES_HEAT_COOL else HVAC_MODES_HEAT_ONLY)"
    and "attr_hvac_mode self' =
             (if in_strs (dict_get data ''mode'') (attr_hvac_modes self')
              then dict_get data ''mode'' else attr_hvac_mode self)"
    and "attr_extra_state_attributes self' =
             [(''available_schemas'', dict_get data ''available_schedules''),
              (''selected_schema'', dict_get data ''selected_schedule'')]"
    using update_presets_frame(1,5,6,7) [OF p] update_temperatures_frame(1,5,7) [OF t]
    by (simp_all add: r update_extra_attributes_def update_hvac_modes_frame
          update_hvac_modes_value update_hvac_modes_action update_hvac_action_value
          update_hvac_action_frame)
  with d h s c tt ct pm pms show ?thesis by (simp split: sum.splits)
qed

text \<open>Whether an update returns, and with which error it raises, is decided by the
  coordinator data and the device id alone.\<close>

lemma handle_coordinator_update_returns:
  "(\<exists>self'. handle_coordinator_update self = Inr self') \<longleftrightarrow>
     (\<exists>data heater sensors.
        device_data self = Inr data \<and> heater_central_data self = Inr heater \<and>
        dict_item data ''sensors'' = Inr (PDict sensors) \<and>
        (truthy (dict_get data ''presets'') \<longrightarrow>
           (\<exists>modes. py_list (dict_get data ''presets'') = Inr modes)))"
proof -
  have v: "val_get s k = Inr x \<Longrightarrow> \<exists>d. s = PDict d" for s k x
    by (cases s) simp_all
  show ?thesis
    by (auto simp: handle_coordinator_update_def update_temperatures_def update_presets_def
          sensors_get_def Let_def split: sum.splits dest: v)
qed

text \<open>
  C8, as the code has it. Two runs of \<open>_handle_coordinator_update\<close> on equal coordinator
  data, for the same device, from any two prior entity states, that both return: the preset
  mode, the HVAC action, the HVAC modes and the extra attributes of the results are equal.
  The target temperature, the current temperature, the preset modes and the HVAC mode are
  each assigned under a guard (a truthy setpoint, a truthy temperature, truthy presets, a
  reported mode in the computed list) and keep the prior value otherwise: each is equal in
  the two results exactly when its guard holds or the two prior values were equal.
\<close>

theorem derived_state_dependence:
  assumes "devices (coordinator a) = devices (coordinator b)"
      and "gateway (coordinator a) = gateway (coordinator b)"
      and "dev_id a = dev_id b"
      and "handle_coordinator_update a = Inr a'"
      and "handle_coordinator_update b = Inr b'"
  shows "attr_preset_mode a' = attr_preset_mode b' \<and>
         attr_hvac_action a' = attr_hvac_action b' \<and>
         attr_hvac_modes a' = attr_hvac_modes b' \<and>
         attr_extra_state_attributes a' = attr_extra_state_attributes b' \<and>
         (\<exists>data setpoint temperature.
            device_data a = Inr data \<and>
            sensors_get data ''setpoint'' = Inr setpoint \<and>
            sensors_get data ''temperature'' = Inr temperature \<and>
            (attr_target_temperature a' = attr_target_temperature b' \<longleftrightarrow>
               truthy setpoint \<or> attr_target_temperature a = attr_target_temperature b) \<and>
            (attr_current_temperature a' = attr_current_temperature b' \<longleftrightarrow>
               truthy temperature \<or> attr_current_temperature a = attr_current_temperature b) \<and>
            (attr_preset_modes a' = attr_preset_modes b' \<longleftrightarrow>
               truthy (dict_get data ''presets'') \<or> attr_preset_modes a = attr_preset_modes b) \<and>
            (attr_hvac_mode a' = attr_hvac_mode b' \<longleftrightarrow>
               in_strs (dict_get data ''mode'') (attr_hvac_modes a') \<or>
               attr_hvac_mode a = attr_hvac_mode b))"
proof -
  have d: "device_data b = device_data a" and h: "heater_central_data b = heater_central_data a"
    using assms(1-3)
    by (simp_all add: device_data_def heater_central_data_def split: sum.splits)
  from handle_coordinator_update_result [OF assms(4)]
  obtain data heater setpoint temperature where
    a0: "device_data a = Inr data" "heater_central_data a = Inr heater"
        "sensors_get data ''setpoint'' = Inr setpoint"
        "sensors_get data ''temperature'' = Inr temperature" and
    a1: "attr_target_temperature a' =
           (if truthy setpoint then setpoint else attr_target_temperature a)" and
    a2: "attr_current_temperature a' =
           (if truthy temperature then temperature else attr_current_temperature a)" and
    a3: "attr_preset_mode a' =
           (if truthy (dict_get data ''presets'') then dict_get data ''active_preset''
            else PNone)" and
    a4: "attr_preset_modes a' =
           (if truthy (dict_get data ''presets'')
            then (case py_list (dict_get data ''presets'') of
                    Inr modes \<Rightarrow> Some modes | Inl e \<Rightarrow> attr_preset_modes a)
            else attr_preset_modes a)" and
    a5: "attr_hvac_action a' =
           Some (if truthy (dict_get heater ''heating_state'') then CURRENT_HVAC_HEAT
                 else if truthy (dict_get heater ''cooling_state'') then CURRENT_HVAC_COOL
                 else CURRENT_HVAC_IDLE)" and
    a6: "attr_hvac_modes a' =
           (if truthy (dict_get (gateway (coordinator a)) ''cooling_present'')
            then HVAC_MODES_HEAT_COOL else HVAC_MODES_HEAT_ONLY)" and
    a7: "attr_hvac_mode a' =
           (if in_strs (dict_get data ''mode'') (attr_hvac_modes a')
            then dict_get data ''mode'' else attr_hvac_mode a)" and
    a8: "attr_extra_state_attributes a' =
           [(''available_schemas'', dict_get data ''available_schedules''),
            (''selected_schema'', dict_get data ''selected_schedule'')]"
    by blast
  from handle_coordinator_update_result [OF assms(5)]
  obtain data2 heater2 setpoint2 temperature2 where
    b0: "device_data b = Inr data2" "heater_central_data b = Inr heater2"
        "sensors_get data2 ''setpoint'' = Inr setpoint2"
        "sensors_get data2 ''temperature'' = Inr temperature2" and
    b1': "attr_target_temperature b' =
           (if truthy setpoint2 then setpoint2 else attr_target_temperature b)" and
    b2': "attr_current_temperature b' =
           (if truthy temperature2 then temperature2 else attr_current_temperature b)" and
    b3': "attr_preset_mode b' =
           (if truthy (dict_get data2 ''presets'') then dict_get data2 ''active_preset''
            else PNone)" and
    b4': "attr_preset_modes b' =
           (if truthy (dict_get data2 ''presets'')
            then (case py_list (dict_get data2 ''presets'') of
                    Inr modes \<Rightarrow> Some modes | Inl e \<Rightarrow> attr_preset_modes b)
            else attr_preset_modes b)" and
    b5': "attr_hvac_action b' =
           Some (if truthy (dict_get heater2 ''heating_state'') then CURRENT_HVAC_HEAT
                 else if truthy (dict_get heater2 ''cooling_state'') then CURRENT_HVAC_COOL
                 else CURRENT_HVAC_IDLE)" and
    b6': "attr_hvac_modes b' =
           (if truthy (dict_get (gateway (coordinator b)) ''cooling_present'')
            then HVAC_MODES_HEAT_COOL else HVAC_MODES_HEAT_ONLY)" and
    b7': "attr_hvac_mode b' =
           (if in_strs (dict_get data2 ''mode'') (attr_hvac_modes b')
            then dict_get data2 ''mode'' else attr_hvac_mode b)" and
    b8': "attr_extra_state_attributes b' =
           [(''available_schemas'', dict_get data2 ''available_schedules''),
            (''selected_schema'', dict_get data2 ''selected_schedule'')]"
    by blast
  have e1: "data2 = data" using b0(1) a0(1) d by simp
  have e2: "heater2 = heater" using b0(2) a0(2) h by simp
  have e3: "setpoint2 = setpoint" using b0(3) a0(3) e1 by simp
  have e4: "temperature2 = temperature" using b0(4) a0(4) e1 by simp
  note b1 = b1' [unfolded e3] and b2 = b2' [unfolded e4] and b3 = b3' [unfolded e1]
    and b4 = b4' [unfolded e1] and b5 = b5' [unfolded e2]
    and b6 = b6' [folded assms(2)] and b7 = b7' [unfolded e1] and b8 = b8' [unfolded e1]
  have listed: "truthy (dict_get data ''presets'') \<Longrightarrow>
                  \<exists>modes. py_list (dict_get data ''presets'') = Inr modes"
    using handle_coordinator_update_returns [of a] assms(4) a0(1) by auto
  have c1: "attr_preset_mode a' = attr_preset_mode b'" by (simp add: a3 b3)
  have c2: "attr_hvac_action a' = attr_hvac_action b'" by (simp add: a5 b5)
  have c3: "attr_hvac_modes a' = attr_hvac_modes b'" by (simp add: a6 b6)
  have c4: "attr_extra_state_attributes a' = attr_extra_state_attributes b'"
    by (simp add: a8 b8)
  have c5: "attr_target_temperature a' = attr_target_temperature b' \<longleftrightarrow>
              truthy setpoint \<or> attr_target_temperature a = attr_target_temperature b"
    by (simp add: a1 b1)
  have c6: "attr_current_temperature a' = attr_current_temperature b' \<longleftrightarrow>
              truthy temperature \<or> attr_current_temperature a = attr_current_temperature b"
    by (simp add: a2 b2)
  have c7: "attr_preset_modes a' = attr_preset_modes b' \<longleftrightarrow>
              truthy (dict_get data ''presets'') \<or> attr_preset_modes a = attr_preset_modes b"
    using listed by (auto simp: a4 b4)
  have c8: "attr_hvac_mode a' = attr_hvac_mode b' \<longleftrightarrow>
              in_strs (dict_get data ''mode'') (attr_hvac_modes a') \<or>
              attr_hvac_mode a = attr_hvac_mode b"
    unfolding a7 b7 c3 [symmetric] by simp
  from a0 c1 c2 c3 c4 c5 c6 c7 c8 show ?thesis by blast
qed

lemma bare_update:
  "handle_coordinator_update (adam_climate ''bare'' (PStr ''hall'') t) =
     Inr ((adam_climate ''bare'' (PStr ''hall'') t)
            \<lparr>attr_hvac_action := Some ''heating'',
             attr_extra_state_attributes :=
               [(''available_schemas'', PNone), (''selected_schema'', PNone)]\<rparr>)"
  by (simp add: sample_defs lookup_defs update_defs)

text \<open>
  C8 as the specification states it fails. The thermostat \<open>bare\<close> reports no setpoint;
  two runs on the same coordinator data, from prior states with target temperatures 18
  and 25, return entities whose target temperatures differ.
\<close>

theorem derived_state_counterexample:
  "coordinator (adam_climate ''bare'' (PStr ''hall'') (PInt 18)) =
     coordinator (adam_climate ''bare'' (PStr ''hall'') (PInt 25)) \<and>
   handle_coordinator_update (adam_climate ''bare'' (PStr ''hall'') (PInt 18)) =
     Inr ((adam_climate ''bare'' (PStr ''hall'') (PInt 18))
            \<lparr>attr_hvac_action := Some ''heating'',
             attr_extra_state_attributes :=
               [(''available_schemas'', PNone), (''selected_schema'', PNone)]\<rparr>) \<and>
   handle_coordinator_update (adam_climate ''bare'' (PStr ''hall'') (PInt 25)) =
     Inr ((adam_climate ''bare'' (PStr ''hall'') (PInt 25))
            \<lparr>attr_hvac_action := Some ''heating'',
             attr_extra_state_attributes :=
               [(''available_schemas'', PNone), (''selected_schema'', PNone)]\<rparr>) \<and>
   attr_target_temperature
     ((adam_climate ''bare'' (PStr ''hall'') (PInt 18))
        \<lparr>attr_hvac_action := Some ''heating'',
         attr_extra_state_attributes :=
           [(''available_schemas'', PNone), (''selected_schema'', PNone)]\<rparr>) \<noteq>
   attr_target_temperature
     ((adam_climate ''bare'' (PStr ''hall'') (PInt 25))
        \<lparr>attr_hvac_action := Some ''heating'',
         attr_extra_state_attributes :=
           [(''available_schemas'', PNone), (''selected_schema'', PNone)]\<rparr>)"
  by (simp add: bare_update) (simp add: adam_climate_def)

lemma zone_update_target:
  "handle_coordinator_update (adam_climate ''zone'' (PStr ''living'') t) = Inr self' \<Longrightarrow>
     attr_target_temperature self' = PFloat (Real_num 21)"
  by (auto simp: sample_defs lookup_defs update_defs)

theorem derived_state_dependence_witness:
  "\<exists>a' b'.
     handle_coordinator_update (adam_climate ''zone'' (PStr ''living'') (PInt 18)) = Inr a' \<and>
     handle_coordinator_update (adam_climate ''zone'' (PStr ''living'') (PInt 25)) = Inr b' \<and>
     attr_preset_mode a' = attr_preset_mode b' \<and>
     attr_hvac_action a' = attr_hvac_action b' \<and>
     attr_hvac_modes a' = attr_hvac_modes b' \<and>
     attr_extra_state_attributes a' = attr_extra_state_attributes b' \<and>
     attr_target_temperature a' = attr_target_temperature b'"
proof -
  obtain a' where
    a: "handle_coordinator_update (adam_climate ''zone'' (PStr ''living'') (PInt 18)) = Inr a'"
    by (simp add: sample_defs lookup_defs update_defs)
  obtain b' where
    b: "handle_coordinator_update (adam_climate ''zone'' (PStr ''living'') (PInt 25)) = Inr b'"
    by (simp add: sample_defs lookup_defs update_defs)
  have "attr_preset_mode a' = attr_preset_mode b' \<and>
        attr_hvac_action a' = attr_hvac_action b' \<and>
        attr_hvac_modes a' = attr_hvac_modes b' \<and>
        attr_extra_state_attributes a' = attr_extra_state_attributes b'"
    using derived_state_dependence [OF _ _ _ a b] by (simp add: adam_climate_def)
  moreover have "attr_target_temperature a' = attr_target_temperature b'"
    using zone_update_target [OF a] zone_update_target [OF b] by simp
  ultimately show ?thesis using a b by blast
qed

section \<open>The climate entity: commands\<close>

lemma guard_unsatisfiable:
  "number_le lo hi \<Longrightarrow> \<not> (number_lt hi x \<and> number_lt x lo)"
  by (cases lo; cases hi; cases x) auto

lemma dict_get_None:
  "dict_get d k = PNone \<longleftrightarrow> map_of d k = None \<or> map_of d k = Some PNone"
  by (simp add: dict_get_def split: option.splits)

lemma as_number_not_None: "as_number v = Some x \<Longrightarrow> v \<noteq> PNone"
  by (cases v) simp_all

text \<open>
  C3. With \<open>min_temp \<le> max_temp\<close>, \<open>async_set_temperature\<close> raises ValueError exactly
  when the temperature argument is absent or None. For a temperature that is a number,
  inside the range or not, the test \<open>max_temp < temperature < min_temp\<close> is false, the
  method raises nothing of its own, and the one thing it does is the call
  \<open>api.set_temperature(loc_id, temperature)\<close> with the temperature as it was given; the
  method returns when the call does (a failure of the vendor client is the only error
  left).
\<close>

theorem set_temperature_guard:
  assumes "number_le (attr_min_temp self) (attr_max_temp self)"
  shows "((\<exists>msg s. async_set_temperature api kwargs self = Inl (ValueError msg, s)) \<longleftrightarrow>
            (map_of kwargs ATTR_TEMPERATURE = None \<or>
             map_of kwargs ATTR_TEMPERATURE = Some PNone)) \<and>
         (\<forall>x. as_number (dict_get kwargs ATTR_TEMPERATURE) = Some x \<longrightarrow>
            chained_lt (attr_max_temp self) (dict_get kwargs ATTR_TEMPERATURE)
              (attr_min_temp self) = Inr False \<and>
            async_set_temperature api kwargs self =
              (if api (Set_temperature (loc_id self) (dict_get kwargs ATTR_TEMPERATURE))
               then Inr (record_call
                           (Set_temperature (loc_id self) (dict_get kwargs ATTR_TEMPERATURE))
                           self)
               else Inl (HomeAssistantError,
                         record_call
                           (Set_temperature (loc_id self) (dict_get kwargs ATTR_TEMPERATURE))
                           self)))"
proof (intro conjI allI impI)
  show "(\<exists>msg s. async_set_temperature api kwargs self = Inl (ValueError msg, s)) \<longleftrightarrow>
          (map_of kwargs ATTR_TEMPERATURE = None \<or> map_of kwargs ATTR_TEMPERATURE = Some PNone)"
  proof (cases "dict_get kwargs ATTR_TEMPERATURE = PNone")
    case True
    then show ?thesis
      by (simp add: async_set_temperature_def plugwise_command_def dict_get_None [symmetric])
  next
    case False
    then have "\<not> (\<exists>msg s. async_set_temperature api kwargs self = Inl (ValueError msg, s))"
      using guard_unsatisfiable [OF assms]
      by (auto simp: async_set_temperature_def plugwise_command_def chained_lt_def
            api_invoke_def Let_def split: option.splits if_splits)
    with False show ?thesis by (simp add: dict_get_None)
  qed
next
  fix x assume n: "as_number (dict_get kwargs ATTR_TEMPERATURE) = Some x"
  show "chained_lt (attr_max_temp self) (dict_get kwargs ATTR_TEMPERATURE)
          (attr_min_temp self) = Inr False"
    using guard_unsatisfiable [OF assms] n by (simp add: chained_lt_def)
  then show "async_set_temperature api kwargs self =
              (if api (Set_temperature (loc_id self) (dict_get kwargs ATTR_TEMPERATURE))
               then Inr (record_call
                           (Set_temperature (loc_id self) (dict_get kwargs ATTR_TEMPERATURE))
                           self)
               else Inl (HomeAssistantError,
                         record_call
                           (Set_temperature (loc_id self) (dict_get kwargs ATTR_TEMPERATURE))
                           self))"
    using as_number_not_None [OF n]
    by (simp add: async_set_temperature_def plugwise_command_def api_invoke_def)
qed

theorem set_temperature_guard_witness:
  "number_le (attr_min_temp (adam_climate ''zone'' (PStr ''living'') PNone))
             (attr_max_temp (adam_climate ''zone'' (PStr ''living'') PNone)) \<and>
   (\<exists>msg s. async_set_temperature (\<lambda>c. True) [(''hvac_mode'', PStr ''heat'')]
               (adam_climate ''zone'' (PStr ''living'') PNone) = Inl (ValueError msg, s)) \<and>
   async_set_temperature (\<lambda>c. True) [(''temperature'', PInt 35)]
     (adam_climate ''zone'' (PStr ''living'') PNone) =
     Inr (record_call (Set_temperature (PStr ''living'') (PInt 35))
            (adam_climate ''zone'' (PStr ''living'') PNone))"
proof -
  have le: "number_le (attr_min_temp (adam_climate ''zone'' (PStr ''living'') PNone))
                      (attr_max_temp (adam_climate ''zone'' (PStr ''living'') PNone))"
    by (simp add: adam_climate_def)
  have absent: "\<exists>msg s. async_set_temperature (\<lambda>c. True) [(''hvac_mode'', PStr ''heat'')]
               (adam_climate ''zone'' (PStr ''living'') PNone) = Inl (ValueError msg, s)"
    using set_temperature_guard [OF le, of "\<lambda>c. True" "[(''hvac_mode'', PStr ''heat'')]"]
    by (simp add: ATTR_TEMPERATURE_def)
  have given: "async_set_temperature (\<lambda>c. True) [(''temperature'', PInt 35)]
     (adam_climate ''zone'' (PStr ''living'') PNone) =
     Inr (record_call (Set_temperature (PStr ''living'') (PInt 35))
            (adam_climate ''zone'' (PStr ''living'') PNone))"
    using set_temperature_guard [OF le, of "\<lambda>c. True" "[(''temperature'', PInt 35)]"]
    by (simp add: ATTR_TEMPERATURE_def dict_get_def adam_climate_def)
  from le absent given show ?thesis by blast
qed

lemma record_call_frame:
  "(record_call call self)\<lparr>coordinator := coordinator self\<rparr> = self"
  "devices (coordinator (record_call call self)) = devices (coordinator self)"
  "gateway (coordinator (record_call call self)) = gateway (coordinator self)"
  "api_calls (coordinator (record_call call self)) = api_calls (coordinator self) @ [call]"
  by (simp_all add: record_call_def)

text \<open>The presets entry of a device is not truthy when it is absent, None or empty, and
  truthy when it is a dict or a list with an element.\<close>

lemma presets_absent_or_empty:
  "map_of data ''presets'' = None \<Longrightarrow> \<not> truthy (dict_get data ''presets'')"
  "map_of data ''presets'' = Some PNone \<Longrightarrow> \<not> truthy (dict_get data ''presets'')"
  "map_of data ''presets'' = Some (PDict []) \<Longrightarrow> \<not> truthy (dict_get data ''presets'')"
  "map_of data ''presets'' = Some (PList []) \<Longrightarrow> \<not> truthy (dict_get data ''presets'')"
  "map_of data ''presets'' = Some (PDict (kv # kvs)) \<Longrightarrow> truthy (dict_get data ''presets'')"
  "map_of data ''presets'' = Some (PList (v # vs)) \<Longrightarrow> truthy (dict_get data ''presets'')"
  by (simp_all add: dict_get_def)

text \<open>
  C10. For an entity whose device is in the coordinator data, \<open>async_set_preset_mode\<close>
  raises ValueError exactly when the device's \<open>presets\<close> entry is absent or empty (not
  truthy), and then no call is made on the vendor API and the entity is as before.
  Otherwise the one thing it does is the call \<open>api.set_preset(loc_id, preset_mode)\<close>. In
  both cases the entity differs from the one before at most in the calls recorded for the
  API client.
\<close>

theorem set_preset_mode_guard:
  assumes "device_data self = Inr data"
  shows "((\<exists>msg s. async_set_preset_mode api preset_mode self = Inl (ValueError msg, s)) \<longleftrightarrow>
            \<not> truthy (dict_get data ''presets'')) \<and>
         (\<not> truthy (dict_get data ''presets'') \<longrightarrow>
            async_set_preset_mode api preset_mode self =
              Inl (ValueError ''No presets available'', self)) \<and>
         (truthy (dict_get data ''presets'') \<longrightarrow>
            async_set_preset_mode api preset_mode self =
              (if api (Set_preset (loc_id self) preset_mode)
               then Inr (record_call (Set_preset (loc_id self) preset_mode) self)
               else Inl (HomeAssistantError,
                         record_call (Set_preset (loc_id self) preset_mode) self))) \<and>
         (state_after (async_set_preset_mode api preset_mode self))
           \<lparr>coordinator := coordinator self\<rparr> = self"
  using assms
  by (simp add: async_set_preset_mode_def plugwise_command_def api_invoke_def
        state_after_def record_call_frame(1))

theorem set_preset_mode_guard_witness:
  "async_set_preset_mode (\<lambda>c. True) ''away'' (adam_climate ''zone'' (PStr ''living'') PNone) =
     Inr (record_call (Set_preset (PStr ''living'') ''away'')
            (adam_climate ''zone'' (PStr ''living'') PNone)) \<and>
   async_set_preset_mode (\<lambda>c. True) ''away'' (adam_climate ''bare'' (PStr ''hall'') PNone) =
     Inl (ValueError ''No presets available'', adam_climate ''bare'' (PStr ''hall'') PNone)"
proof -
  have z: "device_data (adam_climate ''zone'' (PStr ''living'') PNone) =
             Inr [(''class'', PStr ''zone_thermostat''),
                  (''location'', PStr ''living''),
                  (''sensors'', PDict [(''setpoint'', PFloat (Real_num 21)),
                                        (''temperature'', PFloat (Real_num (41 / 2)))]),
                  (''active_preset'', PStr ''home''),
                  (''presets'', PDict [(''home'', PList [PInt 20]), (''away'', PList [PInt 15])]),
                  (''mode'', PStr ''auto''),
                  (''available_schedules'', PList [PStr ''week'']),
                  (''selected_schedule'', PStr ''week'')]"
    by (simp add: sample_defs lookup_defs)
  have b: "device_data (adam_climate ''bare'' (PStr ''hall'') PNone) =
             Inr [(''class'', PStr ''thermostat''), (''location'', PStr ''hall''),
                  (''sensors'', PDict [])]"
    by (simp add: sample_defs lookup_defs)
  show ?thesis
    using set_preset_mode_guard [OF z, of "\<lambda>c. True" "''away''"]
          set_preset_mode_guard [OF b, of "\<lambda>c. True" "''away''"]
    by (simp add: dict_get_def adam_climate_def)
qed

section \<open>The switch entity\<close>

text \<open>
  C7. For a switch entity whose device is in the coordinator data, \<open>async_turn_on\<close> makes
  exactly one call on the vendor API, \<open>set_switch_state\<close> with the entity's device id, the
  device's \<open>members\<close>, the key of the entity description and the state on;
  \<open>async_turn_off\<close> makes the same call with the state off. The method returns when the
  call does, and raises HomeAssistantError when the client fails.
\<close>

theorem switch_commands:
  assumes "device self = Inr dev"
  shows "api_calls (coordinator (state_after (async_turn_on api self))) =
           api_calls (coordinator self) @
           [Set_switch_state (dev_id self) (dict_get dev ''members'')
              (entity_description_key self) ''on''] \<and>
         api_calls (coordinator (state_after (async_turn_off api self))) =
           api_calls (coordinator self) @
           [Set_switch_state (dev_id self) (dict_get dev ''members'')
              (entity_description_key self) ''off''] \<and>
         async_turn_on api self =
           (if api (Set_switch_state (dev_id self) (dict_get dev ''members'')
                      (entity_description_key self) ''on'')
            then Inr (record_call
                        (Set_switch_state (dev_id self) (dict_get dev ''members'')
                           (entity_description_key self) ''on'') self)
            else Inl (HomeAssistantError,
                      record_call
                        (Set_switch_state (dev_id self) (dict_get dev ''members'')
                           (entity_description_key self) ''on'') self)) \<and>
         async_turn_off api self =
           (if api (Set_switch_state (dev_id self) (dict_get dev ''members'')
                      (entity_description_key self) ''off'')
            then Inr (record_call
                        (Set_switch_state (dev_id self) (dict_get dev ''members'')
                           (entity_description_key self) ''off'') self)
            else Inl (HomeAssistantError,
                      record_call
                        (Set_switch_state (dev_id self) (dict_get dev ''members'')
                           (entity_description_key self) ''off'') self))"
  using assms
  by (simp add: async_turn_on_def async_turn_off_def set_switch_def plugwise_command_def
        api_invoke_def state_after_def record_call_frame(4))

theorem switch_commands_witness:
  "api_calls (coordinator (state_after (async_turn_off (\<lambda>c. True) adam_switch))) =
     [Set_switch_state ''cv_pomp'' PNone ''relay'' ''off''] \<and>
   api_calls (coordinator (state_after (async_turn_on (\<lambda>c. False) adam_switch))) =
     [Set_switch_state ''cv_pomp'' PNone ''relay'' ''on'']"
proof -
  have d: "device adam_switch =
             Inr [(''class'', PStr ''plug''), (''switches'', PDict [(''relay'', PBool True)])]"
    by (simp add: sample_defs device_def dict_item_def)
  have e: "dev_id adam_switch = ''cv_pomp''" "entity_description_key adam_switch = ''relay''"
    "api_calls (coordinator adam_switch) = []"
    by (simp_all add: sample_defs)
  show ?thesis
    using switch_commands [OF d, of "\<lambda>c. True"] switch_commands [OF d, of "\<lambda>c. False"]
    by (simp add: dict_get_def e state_after_def record_call_frame(4))
qed

section \<open>The MQTT lock: commands and messages\<close>

lemmas lock_defs =
  is_locked_def assumed_state_def async_write_ha_state_def async_publish_def
  async_lock_def async_unlock_def async_open_def message_received_def
  prepare_subscribe_topics_def

text \<open>The open command is offered exactly when an open payload is configured; without
  one the method raises before anything is published or written.\<close>

lemma open_supported:
  "0 < SUPPORT_OPEN \<Longrightarrow>
     supported_features SUPPORT_OPEN self = SUPPORT_OPEN \<longleftrightarrow> payload_open (config self) \<noteq> None"
  by (auto simp: supported_features_def)

lemma async_open_unsupported:
  "payload_open (config self) = None \<Longrightarrow> async_open self = Inl (KeyError, self)"
  by (simp add: async_open_def)

text \<open>A lock without a state topic is optimistic whatever its \<open>optimistic\<close> option says.\<close>

lemma forced_optimistic:
  "state_topic (config self) = None \<Longrightarrow>
     optimistic (prepare_subscribe_topics (setup_from_config cfg self))"
  by (simp add: prepare_subscribe_topics_def setup_from_config_def)

text \<open>
  C2. A lock with no state topic is in optimistic mode after
  \<open>_prepare_subscribe_topics\<close>: \<open>assumed_state\<close> is true. In optimistic mode
  \<open>async_lock\<close> leaves \<open>is_locked\<close> true, \<open>async_unlock\<close> leaves it false, and so does
  \<open>async_open\<close> on a lock that has an open payload; each writes the new state to the
  platform. Outside optimistic mode none of the three changes \<open>is_locked\<close>.
\<close>

theorem optimistic_mode:
  "(state_topic (config self) = None \<longrightarrow> assumed_state (prepare_subscribe_topics self)) \<and>
   (assumed_state self \<longrightarrow>
      is_locked (async_lock self) \<and>
      ha_states (async_lock self) = ha_states self @ [True] \<and>
      \<not> is_locked (async_unlock self) \<and>
      ha_states (async_unlock self) = ha_states self @ [False] \<and>
      (payload_open (config self) \<noteq> None \<longrightarrow>
         (\<exists>s. async_open self = Inr s \<and> \<not> is_locked s \<and>
              ha_states s = ha_states self @ [False]))) \<and>
   (\<not> assumed_state self \<longrightarrow>
      is_locked (async_lock self) = is_locked self \<and>
      is_locked (async_unlock self) = is_locked self \<and>
      is_locked (state_after (async_open self)) = is_locked self)"
  by (auto simp: lock_defs state_after_def Let_def split: option.splits)

theorem optimistic_mode_witness:
  "assumed_state
     (prepare_subscribe_topics (front_door (front_door_config None (Some ''OPEN'') ''UNLOCKED'') False False)) \<and>
   is_locked (async_lock (front_door (front_door_config None (Some ''OPEN'') ''UNLOCKED'') False True)) \<and>
   \<not> is_locked (async_unlock (front_door (front_door_config None (Some ''OPEN'') ''UNLOCKED'') True True)) \<and>
   \<not> is_locked
       (state_after (async_open (front_door (front_door_config None (Some ''OPEN'') ''UNLOCKED'') True True))) \<and>
   is_locked
     (async_unlock
        (front_door (front_door_config (Some ''door/state'') None ''UNLOCKED'') True False))"
proof -
  have a: "state_topic (config (front_door (front_door_config None (Some ''OPEN'') ''UNLOCKED'') False False)) = None"
    and b: "assumed_state (front_door (front_door_config None (Some ''OPEN'') ''UNLOCKED'') False True)"
    and c: "assumed_state (front_door (front_door_config None (Some ''OPEN'') ''UNLOCKED'') True True)"
    and d: "payload_open (config (front_door (front_door_config None (Some ''OPEN'') ''UNLOCKED'') True True)) \<noteq> None"
    and e: "\<not> assumed_state (front_door (front_door_config (Some ''door/state'') None ''UNLOCKED'') True False)"
    and f: "is_locked (front_door (front_door_config (Some ''door/state'') None ''UNLOCKED'') True False)"
    by (simp_all add: front_door_def front_door_config_def assumed_state_def is_locked_def)
  have 1: "assumed_state
     (prepare_subscribe_topics (front_door (front_door_config None (Some ''OPEN'') ''UNLOCKED'') False False))"
    using optimistic_mode [of "front_door (front_door_config None (Some ''OPEN'') ''UNLOCKED'') False False"] a
    by blast
  have 2: "is_locked (async_lock (front_door (front_door_config None (Some ''OPEN'') ''UNLOCKED'') False True))"
    using optimistic_mode [of "front_door (front_door_config None (Some ''OPEN'') ''UNLOCKED'') False True"] b
    by blast
  have 3: "\<not> is_locked (async_unlock (front_door (front_door_config None (Some ''OPEN'') ''UNLOCKED'') True True))"
    and 4: "\<not> is_locked
       (state_after (async_open (front_door (front_door_config None (Some ''OPEN'') ''UNLOCKED'') True True)))"
    using optimistic_mode [of "front_door (front_door_config None (Some ''OPEN'') ''UNLOCKED'') True True"] c d
    by (auto simp: state_after_def)
  have 5: "is_locked
     (async_unlock
        (front_door (front_door_config (Some ''door/state'') None ''UNLOCKED'') True False))"
    using optimistic_mode [of "front_door (front_door_config (Some ''door/state'') None ''UNLOCKED'') True False"] e f
    by blast
  from 1 2 3 4 5 show ?thesis by blast
qed

text \<open>
  C6. \<open>async_lock\<close> publishes exactly one message: the configured \<open>payload_lock\<close> on
  the configured command topic, with the configured QoS, retain flag and encoding.
  \<open>async_unlock\<close> does the same with \<open>payload_unlock\<close>, and \<open>async_open\<close>, on a lock
  that has an open payload, with \<open>payload_open\<close>.
\<close>

theorem lock_commands_publish:
  "published (async_lock self) =
     published self @
     [Publish (command_topic (config self)) (payload_lock (config self))
        (qos (config self)) (retain (config self)) (encoding (config self))] \<and>
   published (async_unlock self) =
     published self @
     [Publish (command_topic (config self)) (payload_unlock (config self))
        (qos (config self)) (retain (config self)) (encoding (config self))] \<and>
   (\<forall>p. payload_open (config self) = Some p \<longrightarrow>
      (\<exists>s. async_open self = Inr s \<and>
           published s =
             published self @
             [Publish (command_topic (config self)) p
                (qos (config self)) (retain (config self)) (encoding (config self))]))"
  by (simp add: lock_defs Let_def)

theorem lock_commands_publish_witness:
  "published
     (state_after (async_open (front_door (front_door_config None (Some ''OPEN'') ''UNLOCKED'') True True))) =
     [Publish ''door/set'' ''OPEN'' 0 False ''utf-8''] \<and>
   published (async_lock (front_door (front_door_config None (Some ''OPEN'') ''UNLOCKED'') True True)) =
     [Publish ''door/set'' ''LOCK'' 0 False ''utf-8'']"
proof -
  have p: "payload_open (config (front_door (front_door_config None (Some ''OPEN'') ''UNLOCKED'') True True)) =
             Some ''OPEN''"
    by (simp add: front_door_def front_door_config_def)
  have c: "command_topic (config (front_door (front_door_config None (Some ''OPEN'') ''UNLOCKED'') True True)) = ''door/set''"
    "payload_lock (config (front_door (front_door_config None (Some ''OPEN'') ''UNLOCKED'') True True)) = ''LOCK''"
    "qos (config (front_door (front_door_config None (Some ''OPEN'') ''UNLOCKED'') True True)) = 0"
    "retain (config (front_door (front_door_config None (Some ''OPEN'') ''UNLOCKED'') True True)) = False"
    "encoding (config (front_door (front_door_config None (Some ''OPEN'') ''UNLOCKED'') True True)) = ''utf-8''"
    "published (front_door (front_door_config None (Some ''OPEN'') ''UNLOCKED'') True True) = []"
    by (simp_all add: front_door_def front_door_config_def)
  from lock_commands_publish
         [of "front_door (front_door_config None (Some ''OPEN'') ''UNLOCKED'') True True"] p
  obtain s where
    l: "published (async_lock (front_door (front_door_config None (Some ''OPEN'') ''UNLOCKED'') True True)) =
          [Publish ''door/set'' ''LOCK'' 0 False ''utf-8'']" and
    o: "async_open (front_door (front_door_config None (Some ''OPEN'') ''UNLOCKED'') True True) = Inr s"
       "published s = [Publish ''door/set'' ''OPEN'' 0 False ''utf-8'']"
    unfolding c by auto
  show ?thesis
    unfolding l o by (simp add: state_after_def o(2))
qed

text \<open>
  C4 as the specification states it fails when the two configured state strings are the
  same: the payload then equals \<open>state_unlocked\<close>, and the lock, unlocked before the
  message, is locked after it.
\<close>

theorem message_received_counterexample:
  "value_template (front_door (front_door_config (Some ''door/state'') None ''LOCKED'') False False)
     (PStr ''LOCKED'') =
   PStr (state_unlocked
           (config (front_door (front_door_config (Some ''door/state'') None ''LOCKED'') False False))) \<and>
   \<not> is_locked (front_door (front_door_config (Some ''door/state'') None ''LOCKED'') False False) \<and>
   is_locked
     (message_received (PStr ''LOCKED'')
        (front_door (front_door_config (Some ''door/state'') None ''LOCKED'') False False))"
  by (simp add: front_door_def front_door_config_def lock_defs)

text \<open>
  C4, as the code has it. The rendered payload of a message on the state topic is tested
  against \<open>state_locked\<close> first: if it equals that string, \<open>is_locked\<close> becomes true;
  otherwise, if it equals \<open>state_unlocked\<close>, \<open>is_locked\<close> becomes false. In both cases
  the new state is written to the platform.
\<close>

theorem message_received_state:
  "(value_template self msg = PStr (state_locked (config self)) \<longrightarrow>
      is_locked (message_received msg self) \<and>
      ha_states (message_received msg self) = ha_states self @ [True]) \<and>
   (value_template self msg \<noteq> PStr (state_locked (config self)) \<and>
    value_template self msg = PStr (state_unlocked (config self)) \<longrightarrow>
      \<not> is_locked (message_received msg self) \<and>
      ha_states (message_received msg self) = ha_states self @ [False])"
  by (simp add: lock_defs Let_def)

theorem message_received_state_witness:
  "is_locked
     (message_received (PStr ''LOCKED'')
        (front_door (front_door_config (Some ''door/state'') None ''UNLOCKED'') False False)) \<and>
   \<not> is_locked
       (message_received (PStr ''UNLOCKED'')
          (front_door (front_door_config (Some ''door/state'') None ''UNLOCKED'') True False)) \<and>
   ha_states
     (message_received (PStr ''UNLOCKED'')
        (front_door (front_door_config (Some ''door/state'') None ''UNLOCKED'') True False)) = [False]"
proof -
  have a: "value_template (front_door (front_door_config (Some ''door/state'') None ''UNLOCKED'') False False)
             (PStr ''LOCKED'') =
           PStr (state_locked (config (front_door (front_door_config (Some ''door/state'') None ''UNLOCKED'') False False)))"
    and b: "value_template (front_door (front_door_config (Some ''door/state'') None ''UNLOCKED'') True False)
             (PStr ''UNLOCKED'') \<noteq>
           PStr (state_locked (config (front_door (front_door_config (Some ''door/state'') None ''UNLOCKED'') True False)))"
    and c: "value_template (front_door (front_door_config (Some ''door/state'') None ''UNLOCKED'') True False)
             (PStr ''UNLOCKED'') =
           PStr (state_unlocked (config (front_door (front_door_config (Some ''door/state'') None ''UNLOCKED'') True False)))"
    and d: "ha_states (front_door (front_door_config (Some ''door/state'') None ''UNLOCKED'') True False) = []"
    by (simp_all add: front_door_def front_door_config_def)
  have 1: "is_locked
     (message_received (PStr ''LOCKED'')
        (front_door (front_door_config (Some ''door/state'') None ''UNLOCKED'') False False))"
    using message_received_state
            [of "front_door (front_door_config (Some ''door/state'') None ''UNLOCKED'') False False"
                "PStr ''LOCKED''"] a
    by blast
  have 2: "\<not> is_locked
       (message_received (PStr ''UNLOCKED'')
          (front_door (front_door_config (Some ''door/state'') None ''UNLOCKED'') True False)) \<and>
    ha_states
     (message_received (PStr ''UNLOCKED'')
        (front_door (front_door_config (Some ''door/state'') None ''UNLOCKED'') True False)) = [False]"
    using message_received_state
            [of "front_door (front_door_config (Some ''door/state'') None ''UNLOCKED'') True False"
                "PStr ''UNLOCKED''"] b c d
    by simp
  from 1 2 show ?thesis by blast
qed

text \<open>
  C9. A message on the state topic whose rendered payload is neither \<open>state_locked\<close> nor
  \<open>state_unlocked\<close> leaves \<open>is_locked\<close> as it was; the lock only writes that unchanged
  state to the platform once more.
\<close>

theorem message_received_other:
  assumes "value_template self msg \<noteq> PStr (state_locked (config self))"
      and "value_template self msg \<noteq> PStr (state_unlocked (config self))"
  shows "is_locked (message_received msg self) = is_locked self \<and>
         ha_states (message_received msg self) = ha_states self @ [is_locked self] \<and>
         message_received msg self = self\<lparr>ha_states := ha_states self @ [is_locked self]\<rparr>"
  using assms by (simp add: lock_defs Let_def)

theorem message_received_other_witness:
  "is_locked
     (message_received (PBytes [255])
        (front_door (front_door_config (Some ''door/state'') None ''UNLOCKED'') True False)) \<and>
   ha_states
     (message_received (PBytes [255])
        (front_door (front_door_config (Some ''door/state'') None ''UNLOCKED'') True False)) = [True]"
proof -
  have a: "value_template (front_door (front_door_config (Some ''door/state'') None ''UNLOCKED'') True False)
             (PBytes [255]) \<noteq>
           PStr (state_locked (config (front_door (front_door_config (Some ''door/state'') None ''UNLOCKED'') True False)))"
    and b: "value_template (front_door (front_door_config (Some ''door/state'') None ''UNLOCKED'') True False)
             (PBytes [255]) \<noteq>
           PStr (state_unlocked (config (front_door (front_door_config (Some ''door/state'') None ''UNLOCKED'') True False)))"
    by (simp_all add: front_door_def front_door_config_def)
  have c: "is_locked (front_door (front_door_config (Some ''door/state'') None ''UNLOCKED'') True False)"
    "ha_states (front_door (front_door_config (Some ''door/state'') None ''UNLOCKED'') True False) = []"
    by (simp_all add: front_door_def is_locked_def)
  note r = message_received_other [OF a b]
  show ?thesis
    using r [THEN conjunct1] r [THEN conjunct2, THEN conjunct1] c by simp
qed

end
